theory Spec2Isabelle
  imports Main "HOL-Library.AList" "HOL-Library.Sublist"
begin

section \<open>Data model\<close>

text \<open>
  The program is \<^verbatim>\<open>scripts/fetch-model-info.py\<close>. Every value it handles comes out of
  \<^verbatim>\<open>json.loads\<close> / \<^verbatim>\<open>json.load\<close> or is a dict literal built by the script, so one
  datatype of Python values is enough: \<^verbatim>\<open>None\<close>, \<^verbatim>\<open>bool\<close>, \<^verbatim>\<open>int\<close> (unbounded),
  \<^verbatim>\<open>float\<close>, \<^verbatim>\<open>str\<close>, \<^verbatim>\<open>list\<close> and \<^verbatim>\<open>dict\<close> with string keys.

  A float is an IEEE double that the script only ever copies; it is kept opaque.
  A dict is an association list in insertion order; lookup is \<open>map_of\<close> and the
  assignment \<^verbatim>\<open>d[k] = v\<close> is \<open>AList.update\<close> (an existing key keeps its place, a new
  key goes to the end), which is what Python does.
\<close>

typedecl float64

instantiation float64 :: equal
begin
definition equal_float64 :: "float64 \<Rightarrow> float64 \<Rightarrow> bool" where
  "equal_float64 a b \<longleftrightarrow> a = b"
instance
  by standard (simp add: equal_float64_def)
end

datatype json =
    JNull
  | JBool bool
  | JInt int
  | JFloat float64
  | JStr string
  | JArr "json list"
  | JObj "(string \<times> json) list"

type_synonym dict = "(string \<times> json) list"

text \<open>\<^verbatim>\<open>type(v).__name__\<close>, as it appears in CPython's error messages.\<close>

fun type_name :: "json \<Rightarrow> string" where
  "type_name JNull = ''NoneType''"
| "type_name (JBool _) = ''bool''"
| "type_name (JInt _) = ''int''"
| "type_name (JFloat _) = ''float''"
| "type_name (JStr _) = ''str''"
| "type_name (JArr _) = ''list''"
| "type_name (JObj _) = ''dict''"

text \<open>
  The exceptions the modelled code can raise. Each carries its message \<^verbatim>\<open>str(e)\<close>, in
  CPython's wording.
\<close>

datatype py_error =
    AttributeError string
  | TypeError string
  | KeyError string
  | NotADirectoryError string

fun str_error :: "py_error \<Rightarrow> string" where
  "str_error (AttributeError text) = text"
| "str_error (TypeError text) = text"
| "str_error (KeyError text) = text"
| "str_error (NotADirectoryError text) = text"

text \<open>\<^verbatim>\<open>"'" + s + "'"\<close>, the way the messages quote a name or a path.\<close>

definition quoted :: "string \<Rightarrow> string" where
  "quoted s = [CHR 0x27] @ s @ [CHR 0x27]"

text \<open>Reading an attribute that only a dict has, on any other value.\<close>

definition no_attribute :: "json \<Rightarrow> string \<Rightarrow> py_error" where
  "no_attribute v attr =
     AttributeError (quoted (type_name v) @ '' object has no attribute '' @ quoted attr)"

text \<open>\<^verbatim>\<open>d.get(k, default)\<close>; \<^verbatim>\<open>d.get(k)\<close> is \<open>dict_get d k JNull\<close>.\<close>

definition dict_get :: "dict \<Rightarrow> string \<Rightarrow> json \<Rightarrow> json" where
  "dict_get d k dflt = (case map_of d k of None \<Rightarrow> dflt | Some v \<Rightarrow> v)"

text \<open>\<^verbatim>\<open>k in d\<close> for a dict.\<close>

definition dict_contains :: "dict \<Rightarrow> string \<Rightarrow> bool" where
  "dict_contains d k \<longleftrightarrow> map_of d k \<noteq> None"

text \<open>\<^verbatim>\<open>list(d.keys())\<close>.\<close>

definition dict_keys :: "dict \<Rightarrow> string list" where
  "dict_keys d = map fst d"

section \<open>Context Extractor\<close>

text \<open>
  \<^verbatim>\<open>
  for key in ["n_positions", "n_ctx", "max_seq_len", "max_sequence_length"]:
      if key in config:
          result["max_position_embeddings"] = config[key]
          result["source_field"] = key
          break
  \<close>
\<close>

definition alias_keys :: "string list" where
  "alias_keys = [''n_positions'', ''n_ctx'', ''max_seq_len'', ''max_sequence_length'']"

fun alias_scan :: "string list \<Rightarrow> dict \<Rightarrow> dict \<Rightarrow> dict" where
  "alias_scan [] config result = result"
| "alias_scan (key # keys) config result =
     (case map_of config key of
        Some v \<Rightarrow>
          AList.update ''source_field'' (JStr key)
            (AList.update ''max_position_embeddings'' v result)
      | None \<Rightarrow> alias_scan keys config result)"

text \<open>
  The body of \<^verbatim>\<open>extract_context_window\<close> once \<^verbatim>\<open>config\<close> is known to be a dict.
  \<^verbatim>\<open>result["max_position_embeddings"] is None\<close> reads the key the literal has just
  bound, so it tests \<^verbatim>\<open>config.get("max_position_embeddings")\<close> against \<^verbatim>\<open>None\<close>.
\<close>

definition extract_fields :: "dict \<Rightarrow> dict" where
  "extract_fields config =
     (let result =
            [(''max_position_embeddings'', dict_get config ''max_position_embeddings'' JNull),
             (''sliding_window'', dict_get config ''sliding_window'' JNull),
             (''model_type'', dict_get config ''model_type'' JNull),
             (''architectures'', dict_get config ''architectures'' (JArr []))];
          result =
            (if map_of result ''max_position_embeddings'' = Some JNull
             then alias_scan alias_keys config result
             else result);
          result =
            (case map_of config ''rope_scaling'' of
               Some v \<Rightarrow> AList.update ''rope_scaling'' v result
             | None \<Rightarrow> result)
      in result)"

text \<open>
  \<^verbatim>\<open>extract_context_window(config)\<close> for any Python value: the first statement calls
  \<^verbatim>\<open>config.get\<close>, which only a dict has; every other value raises \<^verbatim>\<open>AttributeError\<close>.
\<close>

fun extract_context_window :: "json \<Rightarrow> py_error + dict" where
  "extract_context_window (JObj config) = Inr (extract_fields config)"
| "extract_context_window v = Inl (no_attribute v ''get'')"

section \<open>Config Fetcher\<close>

text \<open>\<^verbatim>\<open>str(n)\<close> for an \<^verbatim>\<open>int\<close>: decimal digits, with a minus sign when negative.\<close>

fun str_nat :: "nat \<Rightarrow> string" where
  "str_nat n =
     (if n < 10 then [''0123456789'' ! n]
      else str_nat (n div 10) @ [''0123456789'' ! (n mod 10)])"

definition str_int :: "int \<Rightarrow> string" where
  "str_int i = (if i < 0 then CHR ''-'' # str_nat (nat (- i)) else str_nat (nat i))"

text \<open>
  What one pass through the \<^verbatim>\<open>try\<close> block does for one URL. The block builds the request,
  opens it with a 10 second timeout, reads and decodes the body and parses it:
  \<^item> \<open>Parsed v\<close>: every step worked and \<^verbatim>\<open>json.loads\<close> returned \<open>v\<close>;
  \<^item> \<open>HTTPError code msg\<close>: \<^verbatim>\<open>urlopen\<close> raised \<^verbatim>\<open>urllib.error.HTTPError\<close> with that
    status code and reason;
  \<^item> \<open>OtherException\<close>: any other \<^verbatim>\<open>Exception\<close> (no connection, timeout, a body that is not
    UTF-8 or not JSON).
  The network is a function from the URL to that outcome; the script requests each URL at
  most once in a run.
\<close>

datatype attempt = Parsed json | HTTPError int string | OtherException

type_synonym network = "string \<Rightarrow> attempt"

text \<open>\<^verbatim>\<open>str(e)\<close> for an \<^verbatim>\<open>HTTPError\<close>: CPython formats \<^verbatim>\<open>'HTTP Error %s: %s' % (code, msg)\<close>.\<close>

definition str_http_error :: "int \<Rightarrow> string \<Rightarrow> string" where
  "str_http_error code msg = ''HTTP Error '' @ str_int code @ '': '' @ msg"

definition config_urls :: "string \<Rightarrow> string list" where
  "config_urls model_id =
     [''https://huggingface.co/'' @ model_id @ ''/raw/main/config.json'',
      ''https://huggingface.co/'' @ model_id @ ''/resolve/main/config.json'',
      ''https://huggingface.co/'' @ model_id @ ''/blob/main/config.json'']"

text \<open>
  The \<^verbatim>\<open>for url in urls\<close> loop. The third argument is the list of URLs requested so far; it
  is returned with the value so that what was contacted can be stated.
\<close>

fun try_urls :: "network \<Rightarrow> string list \<Rightarrow> string list \<Rightarrow> json \<times> string list" where
  "try_urls net [] requested =
     (JObj [(''error'', JStr ''Failed to fetch config from all URLs'')], requested)"
| "try_urls net (url # urls) requested =
     (case net url of
        Parsed v \<Rightarrow> (v, requested @ [url])
      | HTTPError code msg \<Rightarrow>
          if code = 401 then try_urls net urls (requested @ [url])
          else if code = 404 then try_urls net urls (requested @ [url])
          else (JObj [(''error'',
                  JStr (''HTTP error '' @ str_int code @ '': '' @ str_http_error code msg))],
                requested @ [url])
      | OtherException \<Rightarrow> try_urls net urls (requested @ [url]))"

definition fetch_huggingface_config :: "network \<Rightarrow> string \<Rightarrow> json \<times> string list" where
  "fetch_huggingface_config net model_id = try_urls net (config_urls model_id) []"

text \<open>
  The specification's soft miss: an outcome after which the loop goes on to the next URL.
  It is used to state the properties of the loop, not to define it.
\<close>

fun soft_miss :: "attempt \<Rightarrow> bool" where
  "soft_miss (Parsed _) = False"
| "soft_miss (HTTPError code _) = (code = 401 \<or> code = 404)"
| "soft_miss OtherException = True"

section \<open>Local Model Scanner\<close>

text \<open>
  The file system under \<^verbatim>\<open>Path.home()\<close> is a tree. A regular file carries what
  \<^verbatim>\<open>open\<close> followed by \<^verbatim>\<open>json.load\<close> does with it: the parsed value, or the text
  \<^verbatim>\<open>str(e)\<close> of the exception one of them raises. A directory lists its entries in the
  order \<^verbatim>\<open>iterdir\<close> yields them.
\<close>

datatype content = Json json | Unreadable string

datatype node = File content | Dir "(string \<times> node) list"

text \<open>The node at a relative path; \<open>None\<close> is \<^verbatim>\<open>not path.exists()\<close>.\<close>

fun lookup :: "node \<Rightarrow> string list \<Rightarrow> node option" where
  "lookup n [] = Some n"
| "lookup (Dir entries) (c # cs) =
     (case map_of entries c of None \<Rightarrow> None | Some n \<Rightarrow> lookup n cs)"
| "lookup (File _) (c # cs) = None"

text \<open>\<^verbatim>\<open>str(p / name)\<close> on a POSIX path \<open>p\<close> already in normal form.\<close>

definition path_join :: "string \<Rightarrow> string \<Rightarrow> string" where
  "path_join p name = (if p = ''/'' then p @ name else p @ ''/'' @ name)"

text \<open>
  \<^verbatim>\<open>open(config_path)\<close> then \<^verbatim>\<open>json.load(f)\<close>: the value, or the text of the exception.
  Opening a directory raises \<^verbatim>\<open>IsADirectoryError\<close>.
\<close>

fun load_config :: "string \<Rightarrow> node \<Rightarrow> string + json" where
  "load_config p (File (Json v)) = Inr v"
| "load_config p (File (Unreadable text)) = Inl text"
| "load_config p (Dir _) = Inl (''[Errno 21] Is a directory: '' @ quoted p)"

text \<open>
  The body of the innermost loop for one entry \<^verbatim>\<open>model_dir\<close> of a publisher directory:
  the entries it appends to \<^verbatim>\<open>models\<close>. The \<^verbatim>\<open>try\<close> block covers the call of
  \<^verbatim>\<open>extract_context_window\<close>, so an exception raised there is recorded like a read error.
\<close>

definition scan_model_dir :: "string \<Rightarrow> string \<Rightarrow> string \<Rightarrow> node \<Rightarrow> dict list" where
  "scan_model_dir publisher_name model_name model_path model_dir =
     (case model_dir of
        File _ \<Rightarrow> []
      | Dir entries \<Rightarrow>
          (case map_of entries ''config.json'' of
             None \<Rightarrow> []
           | Some config_file \<Rightarrow>
               (case load_config (path_join model_path ''config.json'') config_file of
                  Inl text \<Rightarrow>
                    [[(''id'', JStr (publisher_name @ ''/'' @ model_name)),
                      (''path'', JStr model_path),
                      (''error'', JStr text)]]
                | Inr config \<Rightarrow>
                    (case extract_context_window config of
                       Inr context \<Rightarrow>
                         [[(''id'', JStr (publisher_name @ ''/'' @ model_name)),
                           (''path'', JStr model_path),
                           (''config'', JObj context)]]
                     | Inl e \<Rightarrow>
                         [[(''id'', JStr (publisher_name @ ''/'' @ model_name)),
                           (''path'', JStr model_path),
                           (''error'', JStr (str_error e))]]))))"

text \<open>\<^verbatim>\<open>for model_dir in publisher_dir.iterdir()\<close>, with \<^verbatim>\<open>models\<close> threaded through.\<close>

fun scan_models :: "string \<Rightarrow> string \<Rightarrow> (string \<times> node) list \<Rightarrow> dict list \<Rightarrow> dict list" where
  "scan_models publisher_name publisher_path [] models = models"
| "scan_models publisher_name publisher_path ((name, model_dir) # rest) models =
     scan_models publisher_name publisher_path rest
       (models @ scan_model_dir publisher_name name (path_join publisher_path name) model_dir)"

text \<open>\<^verbatim>\<open>for publisher_dir in base_path.iterdir()\<close>.\<close>

fun scan_publishers :: "string \<Rightarrow> (string \<times> node) list \<Rightarrow> dict list \<Rightarrow> dict list" where
  "scan_publishers base_path [] models = models"
| "scan_publishers base_path ((name, publisher_dir) # rest) models =
     scan_publishers base_path rest
       (case publisher_dir of
          File _ \<Rightarrow> models
        | Dir entries \<Rightarrow> scan_models name (path_join base_path name) entries models)"

text \<open>
  \<^verbatim>\<open>for base_path in lm_studio_paths\<close>. A base path that exists but is not a directory makes
  \<^verbatim>\<open>iterdir\<close> raise, and nothing in the function catches that.
\<close>

fun scan_bases :: "string \<Rightarrow> node \<Rightarrow> string list list \<Rightarrow> dict list \<Rightarrow> py_error + dict list" where
  "scan_bases home root [] models = Inr models"
| "scan_bases home root (base # bases) models =
     (case lookup root base of
        None \<Rightarrow> scan_bases home root bases models
      | Some (File _) \<Rightarrow>
          Inl (NotADirectoryError
                 (''[Errno 20] Not a directory: '' @ quoted (foldl path_join home base)))
      | Some (Dir entries) \<Rightarrow>
          scan_bases home root bases
            (scan_publishers (foldl path_join home base) entries models))"

definition lm_studio_paths :: "string list list" where
  "lm_studio_paths =
     [[''.cache'', ''lm-studio'', ''models''],
      [''.lmstudio'', ''models''],
      [''Library'', ''Application Support'', ''LM Studio'', ''models'']]"

text \<open>
  \<^verbatim>\<open>find_lm_studio_models()\<close>, given \<^verbatim>\<open>str(Path.home())\<close> and the tree found there.
\<close>

definition find_lm_studio_models :: "string \<Rightarrow> node \<Rightarrow> py_error + dict list" where
  "find_lm_studio_models home root = scan_bases home root lm_studio_paths []"



section \<open>Command Dispatcher\<close>

text \<open>
  Standard output is the list of \<^verbatim>\<open>print\<close> calls, each the list of the pieces of its
  argument: literal text, \<^verbatim>\<open>str(v)\<close> of a value interpolated by an f-string, or
  \<^verbatim>\<open>json.dumps(v)\<close> with its \<^verbatim>\<open>indent\<close>. The process ends by returning from \<^verbatim>\<open>main\<close>
  (status 0), by \<^verbatim>\<open>sys.exit(n)\<close>, or by an uncaught exception (the interpreter prints a
  traceback and the status is 1).
\<close>

datatype piece = Lit string | Str json | Dumps json "nat option"

type_synonym stdout = "piece list list"

datatype ending = Returned | SysExit int | Uncaught py_error


text \<open>
  \<^verbatim>\<open>s in v\<close> for a string \<open>s\<close>: a key of a dict, an element of a list, a substring of a
  string; the other values are not containers.
\<close>

fun py_in :: "string \<Rightarrow> json \<Rightarrow> py_error + bool" where
  "py_in s (JObj d) = Inr (dict_contains d s)"
| "py_in s (JArr xs) = Inr (JStr s \<in> set xs)"
| "py_in s (JStr t) = Inr (sublist s t)"
| "py_in s v = Inl (TypeError (''argument of type '' @ quoted (type_name v) @ '' is not iterable''))"

text \<open>\<^verbatim>\<open>v[s]\<close> for a string \<open>s\<close>.\<close>

fun py_index :: "json \<Rightarrow> string \<Rightarrow> py_error + json" where
  "py_index (JObj d) s = (case map_of d s of Some v \<Rightarrow> Inr v | None \<Rightarrow> Inl (KeyError (quoted s)))"
| "py_index (JArr _) s = Inl (TypeError ''list indices must be integers or slices, not str'')"
| "py_index (JStr _) s = Inl (TypeError ''string indices must be integers'')"
| "py_index v s = Inl (TypeError (quoted (type_name v) @ '' object is not subscriptable''))"

text \<open>\<^verbatim>\<open>v.keys()\<close>.\<close>

fun py_keys :: "json \<Rightarrow> py_error + string list" where
  "py_keys (JObj d) = Inr (dict_keys d)"
| "py_keys v = Inl (no_attribute v ''keys'')"

text \<open>
  \<^verbatim>\<open>s.lower()\<close> on the bytes of the string: the letters A to Z change, bytes of other
  characters stay, which decides \<^verbatim>\<open>"max" in k.lower()\<close> and the like correctly because
  the needles are ASCII.
\<close>

definition lower_char :: "char \<Rightarrow> char" where
  "lower_char c =
     (case map_of (zip ''ABCDEFGHIJKLMNOPQRSTUVWXYZ'' ''abcdefghijklmnopqrstuvwxyz'') c of
        Some l \<Rightarrow> l
      | None \<Rightarrow> c)"

definition lower :: "string \<Rightarrow> string" where
  "lower s = map lower_char s"

definition relevant_key :: "string \<Rightarrow> bool" where
  "relevant_key k \<longleftrightarrow>
     sublist ''max'' (lower k) \<or> sublist ''position'' (lower k) \<or> sublist ''window'' (lower k) \<or>
     sublist ''rope'' (lower k) \<or> sublist ''ctx'' (lower k)"

text \<open>\<^verbatim>\<open>for key in relevant_keys: print(f"  {key}: {config[key]}")\<close>.\<close>

fun print_relevant :: "json \<Rightarrow> string list \<Rightarrow> stdout \<Rightarrow> stdout \<times> ending" where
  "print_relevant config [] out = (out, Returned)"
| "print_relevant config (key # keys) out =
     (case py_index config key of
        Inl e \<Rightarrow> (out, Uncaught e)
      | Inr v \<Rightarrow> print_relevant config keys (out @ [[Lit (''  '' @ key @ '': ''), Str v]]))"

definition usage :: stdout where
  "usage =
     [[Lit ''Usage: fetch-model-info.py <command> [args]''],
      [Lit []],
      [Lit ''Commands:''],
      [Lit ''  huggingface <model_id>  - Fetch config from Hugging Face''],
      [Lit ''                          Example: huggingface mlx-community/Qwen3-30B-A3B-Instruct-MLX''],
      [Lit ''  hub <model_id>          - Fetch info from Hugging Face Hub API''],
      [Lit ''  lmstudio                - List all LM Studio installed models''],
      [Lit ''  context <model_id>      - Get just the context window info''],
      [Lit ''  auto <model_id>         - Try all sources to find context window'']]"

text \<open>The branch \<^verbatim>\<open>command == "huggingface"\<close>; \<open>args\<close> is \<^verbatim>\<open>sys.argv[2:]\<close>.\<close>

definition main_huggingface :: "network \<Rightarrow> string list \<Rightarrow> stdout \<times> ending" where
  "main_huggingface net args =
     (case args of
        [] \<Rightarrow> ([[Lit ''Error: model_id required'']], SysExit 1)
      | model_id # _ \<Rightarrow>
          (let out = [[Lit (''Fetching config for '' @ model_id @ '' from Hugging Face...'')]];
               config = fst (fetch_huggingface_config net model_id)
           in case py_in ''error'' config of
                Inl e \<Rightarrow> (out, Uncaught e)
              | Inr True \<Rightarrow>
                  (case py_index config ''error'' of
                     Inl e \<Rightarrow> (out, Uncaught e)
                   | Inr v \<Rightarrow> (out @ [[Lit ''Error: '', Str v]], SysExit 1))
              | Inr False \<Rightarrow>
                  (case extract_context_window config of
                     Inl e \<Rightarrow> (out, Uncaught e)
                   | Inr context_info \<Rightarrow>
                       (let out = out @ [[Lit (CHR 0x0A # ''=== Model Configuration ==='')],
                                         [Dumps (JObj context_info) (Some 2)],
                                         [Lit (CHR 0x0A # ''=== Raw Config (relevant fields) ==='')]]
                        in case py_keys config of
                             Inl e \<Rightarrow> (out, Uncaught e)
                           | Inr keys \<Rightarrow> print_relevant config (filter relevant_key keys) out))))"

text \<open>The branch \<^verbatim>\<open>command == "context"\<close>.\<close>

definition main_context :: "network \<Rightarrow> string list \<Rightarrow> stdout \<times> ending" where
  "main_context net args =
     (case args of
        [] \<Rightarrow> ([[Lit ''Error: model_id required'']], SysExit 1)
      | model_id # _ \<Rightarrow>
          (let config = fst (fetch_huggingface_config net model_id)
           in case py_in ''error'' config of
                Inl e \<Rightarrow> ([], Uncaught e)
              | Inr True \<Rightarrow>
                  (case py_index config ''error'' of
                     Inl e \<Rightarrow> ([], Uncaught e)
                   | Inr v \<Rightarrow> ([[Dumps (JObj [(''error'', v)]) None]], SysExit 1))
              | Inr False \<Rightarrow>
                  (case extract_context_window config of
                     Inl e \<Rightarrow> ([], Uncaught e)
                   | Inr context_info \<Rightarrow> ([[Dumps (JObj context_info) (Some 2)]], Returned))))"

text \<open>
  \<^verbatim>\<open>main()\<close> on \<^verbatim>\<open>sys.argv\<close>. The branches \<^verbatim>\<open>lmstudio\<close>, \<^verbatim>\<open>hub\<close> and \<^verbatim>\<open>auto\<close> are not
  part of this development; \<open>others\<close> stands for what they do, given the command and the
  arguments.
\<close>

fun main :: "(string \<Rightarrow> string list \<Rightarrow> stdout \<times> ending) \<Rightarrow> network \<Rightarrow> string list \<Rightarrow> stdout \<times> ending" where
  "main others net (prog # command # args) =
     (if command = ''huggingface'' then main_huggingface net args
      else if command = ''lmstudio'' then others command args
      else if command = ''context'' then main_context net args
      else if command = ''hub'' then others command args
      else if command = ''auto'' then others command args
      else ([[Lit (''Unknown command: '' @ command)]], SysExit 1))"
| "main others net argv = (usage, SysExit 1)"

section \<open>Example environments\<close>

text \<open>Networks and a home directory on which the properties below are evaluated.\<close>

definition net_all_404 :: network where
  "net_all_404 url = HTTPError 404 ''Not Found''"

definition net_second_url :: network where
  "net_second_url url =
     (if url = ''https://huggingface.co/acme/m/raw/main/config.json''
        then HTTPError 404 ''Not Found''
      else if url = ''https://huggingface.co/acme/m/resolve/main/config.json''
        then Parsed (JObj [(''max_position_embeddings'', JInt 32768)])
      else OtherException)"

definition net_server_error :: network where
  "net_server_error url =
     (if url = ''https://huggingface.co/acme/m/raw/main/config.json''
        then HTTPError 401 ''Unauthorized''
      else if url = ''https://huggingface.co/acme/m/resolve/main/config.json''
        then HTTPError 500 ''Internal Server Error''
      else Parsed JNull)"



definition home_example :: node where
  "home_example =
     Dir [(''.lmstudio'',
       Dir [(''models'',
         Dir [(''acme'',
                Dir [(''modelA'',
                       Dir [(''config.json'', File (Json (JObj [(''n_ctx'', JInt 2048)])))]),
                     (''modelB'',
                       Dir [(''config.json'',
                              File (Unreadable ''Expecting value: line 1 column 1 (char 0)''))]),
                     (''README.md'', File (Unreadable []))]),
              (''notes.txt'', File (Unreadable []))])])]"


section \<open>Properties of the Context Extractor\<close>

lemma alias_scan_eq:
  "alias_scan keys config result =
     (case find (\<lambda>k. map_of config k \<noteq> None) keys of
        None \<Rightarrow> result
      | Some k \<Rightarrow> AList.update ''source_field'' (JStr k)
                  (AList.update ''max_position_embeddings'' (dict_get config k JNull) result))"
  by (induction keys) (auto simp: dict_get_def)

lemma extract_fields_eq:
  "extract_fields config =
     (let m = dict_get config ''max_position_embeddings'' JNull;
          a = (if m = JNull then find (\<lambda>k. map_of config k \<noteq> None) alias_keys else None)
      in [(''max_position_embeddings'', case a of None \<Rightarrow> m | Some k \<Rightarrow> dict_get config k JNull),
          (''sliding_window'', dict_get config ''sliding_window'' JNull),
          (''model_type'', dict_get config ''model_type'' JNull),
          (''architectures'', dict_get config ''architectures'' (JArr []))]
         @ (case a of None \<Rightarrow> [] | Some k \<Rightarrow> [(''source_field'', JStr k)])
         @ (case map_of config ''rope_scaling'' of None \<Rightarrow> [] | Some v \<Rightarrow> [(''rope_scaling'', v)]))"
  by (simp add: extract_fields_def Let_def alias_scan_eq split: option.split)



text \<open>
  Claim C2 says that a configuration with the key \<^verbatim>\<open>max_position_embeddings\<close> keeps that
  key's value and gets no \<^verbatim>\<open>source_field\<close>, even when the value is null. The guard of the
  alias scan is \<^verbatim>\<open>result["max_position_embeddings"] is None\<close>, which a null value passes:
  with \<^verbatim>\<open>{"max_position_embeddings": null, "n_ctx": 2048}\<close> the output holds 2048 and
  \<^verbatim>\<open>source_field\<close> is \<^verbatim>\<open>"n_ctx"\<close>.
\<close>

theorem primary_key_null_counterexample:
  "map_of [(''max_position_embeddings'', JNull), (''n_ctx'', JInt 2048)] ''max_position_embeddings''
     = Some JNull \<and>
   extract_context_window (JObj [(''max_position_embeddings'', JNull), (''n_ctx'', JInt 2048)]) =
     Inr [(''max_position_embeddings'', JInt 2048), (''sliding_window'', JNull),
          (''model_type'', JNull), (''architectures'', JArr []),
          (''source_field'', JStr ''n_ctx'')]"
  by (simp add: extract_fields_def dict_get_def alias_keys_def)

lemma alias_scan_cong:
  "\<forall>k \<in> set keys. map_of c1 k = map_of c2 k \<Longrightarrow> alias_scan keys c1 r = alias_scan keys c2 r"
  by (induction keys) (auto split: option.splits)

lemma extract_fields_null_as_absent:
  assumes "map_of config ''max_position_embeddings'' = Some JNull"
  shows "extract_fields (AList.delete ''max_position_embeddings'' config) = extract_fields config"
proof -
  let ?c = "AList.delete ''max_position_embeddings'' config"
  have scan: "alias_scan alias_keys ?c r = alias_scan alias_keys config r" for r
    by (rule alias_scan_cong) (simp add: alias_keys_def delete_conv')
  show ?thesis
    using assms by (simp add: extract_fields_def dict_get_def delete_conv' scan)
qed

text \<open>
  Claim C2, as the code has it. When the key \<^verbatim>\<open>max_position_embeddings\<close> is bound to a value
  other than null, the output holds that value and has no \<^verbatim>\<open>source_field\<close>, whatever alias
  keys are present. When it is bound to null, the extractor gives what it gives for the same
  configuration without the key: the alias scan runs.
\<close>

theorem primary_key_nonnull:
  assumes "map_of config ''max_position_embeddings'' = Some v"
  shows "\<exists>out. extract_context_window (JObj config) = Inr out \<and>
           (v \<noteq> JNull \<longrightarrow>
              map_of out ''max_position_embeddings'' = Some v \<and>
              map_of out ''source_field'' = None) \<and>
           (v = JNull \<longrightarrow>
              extract_context_window (JObj (AList.delete ''max_position_embeddings'' config)) = Inr out)"
  using assms extract_fields_null_as_absent [of config]
  by (auto simp: extract_fields_eq dict_get_def Let_def split: option.splits)

text \<open>
  A configuration with the primary key and an alias: the primary value is kept. The same
  with a null primary value: the result is that of the configuration without the key.
\<close>

theorem primary_key_nonnull_witness:
  "(\<exists>out. extract_context_window
            (JObj [(''max_position_embeddings'', JInt 32768), (''n_ctx'', JInt 2048)]) = Inr out \<and>
      map_of out ''max_position_embeddings'' = Some (JInt 32768) \<and>
      map_of out ''source_field'' = None) \<and>
   extract_context_window (JObj [(''max_position_embeddings'', JNull), (''n_ctx'', JInt 2048)]) =
     extract_context_window (JObj [(''n_ctx'', JInt 2048)])"
  using primary_key_nonnull
          [of "[(''max_position_embeddings'', JInt 32768), (''n_ctx'', JInt 2048)]" "JInt 32768"]
        primary_key_nonnull
          [of "[(''max_position_embeddings'', JNull), (''n_ctx'', JInt 2048)]" JNull]
  by (simp add: AList.delete_eq)

text \<open>
  Claim C4. A configuration with none of the five keys gives an output whose
  \<^verbatim>\<open>max_position_embeddings\<close> has no value (the key is bound to null, so
  \<^verbatim>\<open>out.get("max_position_embeddings")\<close> is \<^verbatim>\<open>None\<close>) and in which \<^verbatim>\<open>source_field\<close> is not
  a key.
\<close>

theorem no_context_keys:
  assumes "map_of config ''max_position_embeddings'' = None"
    and "\<forall>k \<in> set alias_keys. map_of config k = None"
  shows "\<exists>out. extract_context_window (JObj config) = Inr out \<and>
           dict_get out ''max_position_embeddings'' JNull = JNull \<and>
           map_of out ''max_position_embeddings'' = Some JNull \<and>
           map_of out ''source_field'' = None"
proof -
  have "find (\<lambda>k. map_of config k \<noteq> None) alias_keys = None"
    using assms(2) by (simp add: find_None_iff)
  then show ?thesis
    using assms(1) by (simp add: extract_fields_eq dict_get_def split: option.splits)
qed

text \<open>A configuration that only names its model type.\<close>

theorem no_context_keys_witness:
  "\<exists>out. extract_context_window (JObj [(''model_type'', JStr ''llama'')]) = Inr out \<and>
     dict_get out ''max_position_embeddings'' JNull = JNull \<and>
     map_of out ''max_position_embeddings'' = Some JNull \<and>
     map_of out ''source_field'' = None"
  using no_context_keys [of "[(''model_type'', JStr ''llama'')]"]
  by (simp add: alias_keys_def)

text \<open>
  Claim C6. \<^verbatim>\<open>rope_scaling\<close> is a key of the output exactly when it is a key of the input,
  and then with the same value, whatever that value is: the two lookups are equal.
\<close>

theorem rope_scaling_iff:
  "\<exists>out. extract_context_window (JObj config) = Inr out \<and>
     map_of out ''rope_scaling'' = map_of config ''rope_scaling''"
  by (simp add: extract_fields_eq Let_def split: option.splits)

text \<open>
  Claim C5 says that extracting from the extractor's own output gives the same record as
  extracting once. It does not when an alias supplied the value: the first output of
  \<^verbatim>\<open>{"n_ctx": 2048}\<close> has \<^verbatim>\<open>source_field = "n_ctx"\<close>; extracting from that output finds
  \<^verbatim>\<open>max_position_embeddings\<close> itself and records no \<^verbatim>\<open>source_field\<close>.
\<close>

theorem idempotent_counterexample:
  "extract_context_window (JObj [(''n_ctx'', JInt 2048)]) =
     Inr [(''max_position_embeddings'', JInt 2048), (''sliding_window'', JNull),
          (''model_type'', JNull), (''architectures'', JArr []),
          (''source_field'', JStr ''n_ctx'')] \<and>
   extract_context_window
     (JObj [(''max_position_embeddings'', JInt 2048), (''sliding_window'', JNull),
            (''model_type'', JNull), (''architectures'', JArr []),
            (''source_field'', JStr ''n_ctx'')]) =
     Inr [(''max_position_embeddings'', JInt 2048), (''sliding_window'', JNull),
          (''model_type'', JNull), (''architectures'', JArr [])]"
  by (simp add: extract_fields_def dict_get_def alias_keys_def)

lemma extract_fields_twice:
  "extract_fields (extract_fields config) = AList.delete ''source_field'' (extract_fields config)"
proof -
  obtain m a r where out: "extract_fields config =
      [(''max_position_embeddings'', m),
       (''sliding_window'', dict_get config ''sliding_window'' JNull),
       (''model_type'', dict_get config ''model_type'' JNull),
       (''architectures'', dict_get config ''architectures'' (JArr []))]
      @ (case a of None \<Rightarrow> [] | Some k \<Rightarrow> [(''source_field'', JStr k)])
      @ (case r of None \<Rightarrow> [] | Some v \<Rightarrow> [(''rope_scaling'', v)])"
    by (simp add: extract_fields_eq Let_def)
  show ?thesis
    unfolding out
    by (cases a; cases r)
       (simp_all add: extract_fields_def dict_get_def alias_keys_def AList.delete_eq Let_def)
qed

text \<open>
  Claim C5, as the code has it. Extracting from the extractor's own output gives that output
  without its \<^verbatim>\<open>source_field\<close>: the two records agree on every other key, the second never
  has \<^verbatim>\<open>source_field\<close>, and they are the same record when the first has none.
\<close>

theorem second_application_drops_source_field:
  "\<exists>out out2. extract_context_window (JObj config) = Inr out \<and>
     extract_context_window (JObj out) = Inr out2 \<and>
     out2 = AList.delete ''source_field'' out \<and>
     (\<forall>k. k \<noteq> ''source_field'' \<longrightarrow> map_of out2 k = map_of out k) \<and>
     map_of out2 ''source_field'' = None \<and>
     (map_of out ''source_field'' = None \<longrightarrow> out2 = out)"
proof -
  let ?out = "extract_fields config"
  let ?out2 = "AList.delete ''source_field'' ?out"
  have same: "map_of ?out ''source_field'' = None \<longrightarrow> ?out2 = ?out"
    by (simp add: map_of_eq_None_iff)
  have "extract_context_window (JObj ?out) = Inr ?out2"
    by (simp add: extract_fields_twice)
  moreover have "\<forall>k. k \<noteq> ''source_field'' \<longrightarrow> map_of ?out2 k = map_of ?out k"
    by (simp add: delete_conv')
  moreover have "map_of ?out2 ''source_field'' = None"
    by (simp add: delete_conv')
  ultimately show ?thesis
    using same by simp
qed

text \<open>A configuration with the primary key: the second extraction changes nothing.\<close>

theorem second_application_drops_source_field_witness:
  "\<exists>out out2.
     extract_context_window (JObj [(''max_position_embeddings'', JInt 4096), (''rope_scaling'', JNull)])
       = Inr out \<and>
     extract_context_window (JObj out) = Inr out2 \<and>
     map_of out ''source_field'' = None \<and> out2 = out"
proof -
  have "map_of (extract_fields [(''max_position_embeddings'', JInt 4096), (''rope_scaling'', JNull)])
          ''source_field'' = None"
    by (simp add: extract_fields_def dict_get_def)
  then show ?thesis
    using second_application_drops_source_field
            [of "[(''max_position_embeddings'', JInt 4096), (''rope_scaling'', JNull)]"]
    by auto
qed

text \<open>
  Claim C9 says that an input lacking \<^verbatim>\<open>max_position_embeddings\<close> gets that key bound to
  null. With \<^verbatim>\<open>{"n_ctx": 2048}\<close> the key is bound to 2048, taken from the alias.
\<close>

theorem fixed_keys_counterexample:
  "map_of [(''n_ctx'', JInt 2048)] ''max_position_embeddings'' = None \<and>
   extract_context_window (JObj [(''n_ctx'', JInt 2048)]) =
     Inr [(''max_position_embeddings'', JInt 2048), (''sliding_window'', JNull),
          (''model_type'', JNull), (''architectures'', JArr []),
          (''source_field'', JStr ''n_ctx'')] \<and>
   map_of [(''max_position_embeddings'', JInt 2048), (''sliding_window'', JNull),
          (''model_type'', JNull), (''architectures'', JArr []),
          (''source_field'', JStr ''n_ctx'')] ''max_position_embeddings'' \<noteq> Some JNull"
  by (simp add: extract_fields_def dict_get_def alias_keys_def)

text \<open>
  Claim C9, as the code has it. The output always has the keys
  \<^verbatim>\<open>max_position_embeddings\<close>, \<^verbatim>\<open>sliding_window\<close>, \<^verbatim>\<open>model_type\<close> and \<^verbatim>\<open>architectures\<close>,
  and no key besides these, \<^verbatim>\<open>source_field\<close> and \<^verbatim>\<open>rope_scaling\<close>. A missing
  \<^verbatim>\<open>sliding_window\<close> or \<^verbatim>\<open>model_type\<close> is bound to null, a missing \<^verbatim>\<open>architectures\<close> to the
  empty list. A missing \<^verbatim>\<open>max_position_embeddings\<close> is bound to the value of the first alias
  key present, and to null when there is none. \<^verbatim>\<open>source_field\<close> is a key exactly when the
  primary value is missing or null and an alias key is present; \<^verbatim>\<open>rope_scaling\<close> exactly when
  it is a key of the input.
\<close>

theorem fixed_keys:
  "\<exists>out. extract_context_window (JObj config) = Inr out \<and>
     {''max_position_embeddings'', ''sliding_window'', ''model_type'', ''architectures''}
       \<subseteq> set (dict_keys out) \<and>
     set (dict_keys out) \<subseteq>
       {''max_position_embeddings'', ''sliding_window'', ''model_type'', ''architectures'',
        ''source_field'', ''rope_scaling''} \<and>
     (map_of config ''sliding_window'' = None \<longrightarrow> map_of out ''sliding_window'' = Some JNull) \<and>
     (map_of config ''model_type'' = None \<longrightarrow> map_of out ''model_type'' = Some JNull) \<and>
     (map_of config ''architectures'' = None \<longrightarrow> map_of out ''architectures'' = Some (JArr [])) \<and>
     (map_of config ''max_position_embeddings'' = None \<longrightarrow>
        (case find (\<lambda>k. map_of config k \<noteq> None) alias_keys of
           None \<Rightarrow> map_of out ''max_position_embeddings'' = Some JNull
         | Some k \<Rightarrow> map_of out ''max_position_embeddings'' = map_of config k)) \<and>
     (dict_contains out ''source_field'' \<longleftrightarrow>
        dict_get config ''max_position_embeddings'' JNull = JNull \<and>
        (\<exists>k \<in> set alias_keys. dict_contains config k)) \<and>
     (dict_contains out ''rope_scaling'' \<longleftrightarrow> dict_contains config ''rope_scaling'')"
proof -
  let ?out = "extract_fields config"
  have keys: "{''max_position_embeddings'', ''sliding_window'', ''model_type'', ''architectures''}
       \<subseteq> set (dict_keys ?out)"
    "set (dict_keys ?out) \<subseteq>
       {''max_position_embeddings'', ''sliding_window'', ''model_type'', ''architectures'',
        ''source_field'', ''rope_scaling''}"
    by (auto simp: extract_fields_eq dict_keys_def Let_def split: option.splits)
  have dflt: "map_of config ''sliding_window'' = None \<longrightarrow> map_of ?out ''sliding_window'' = Some JNull"
    "map_of config ''model_type'' = None \<longrightarrow> map_of ?out ''model_type'' = Some JNull"
    "map_of config ''architectures'' = None \<longrightarrow> map_of ?out ''architectures'' = Some (JArr [])"
    by (simp_all add: extract_fields_eq dict_get_def Let_def)
  have mpe: "map_of config ''max_position_embeddings'' = None \<longrightarrow>
        (case find (\<lambda>k. map_of config k \<noteq> None) alias_keys of
           None \<Rightarrow> map_of ?out ''max_position_embeddings'' = Some JNull
         | Some k \<Rightarrow> map_of ?out ''max_position_embeddings'' = map_of config k)"
  proof (cases "find (\<lambda>k. map_of config k \<noteq> None) alias_keys")
    case None
    then show ?thesis
      by (simp add: extract_fields_eq dict_get_def Let_def del: not_None_eq)
  next
    case (Some k)
    then have "map_of config k \<noteq> None"
      by (auto simp: find_Some_iff)
    with Some show ?thesis
      by (auto simp add: extract_fields_eq dict_get_def Let_def simp del: not_None_eq)
  qed
  have sf: "dict_contains ?out ''source_field'' \<longleftrightarrow>
        dict_get config ''max_position_embeddings'' JNull = JNull \<and>
        (\<exists>k \<in> set alias_keys. dict_contains config k)"
  proof (cases "find (\<lambda>k. map_of config k \<noteq> None) alias_keys")
    case None
    then have "\<not> (\<exists>k \<in> set alias_keys. dict_contains config k)"
      unfolding find_None_iff dict_contains_def by blast
    with None show ?thesis
      by (simp add: extract_fields_eq dict_contains_def Let_def split: option.splits del: not_None_eq)
  next
    case (Some k)
    then have "\<exists>k \<in> set alias_keys. dict_contains config k"
      unfolding find_Some_iff dict_contains_def by (metis nth_mem)
    with Some show ?thesis
      by (simp add: extract_fields_eq dict_contains_def Let_def split: option.splits del: not_None_eq)
  qed
  have rope: "dict_contains ?out ''rope_scaling'' \<longleftrightarrow> dict_contains config ''rope_scaling''"
    by (cases "map_of config ''rope_scaling''")
       (simp_all add: extract_fields_eq dict_contains_def Let_def split: option.splits)
  show ?thesis
    using keys dflt mpe sf rope by simp
qed

text \<open>A configuration with \<^verbatim>\<open>rope_scaling\<close> only.\<close>

theorem fixed_keys_witness:
  "\<exists>out. extract_context_window (JObj [(''rope_scaling'', JNull)]) = Inr out \<and>
     map_of out ''sliding_window'' = Some JNull \<and>
     map_of out ''model_type'' = Some JNull \<and>
     map_of out ''architectures'' = Some (JArr []) \<and>
     map_of out ''max_position_embeddings'' = Some JNull \<and>
     \<not> dict_contains out ''source_field'' \<and>
     dict_contains out ''rope_scaling''"
  using fixed_keys [of "[(''rope_scaling'', JNull)]"]
  by (simp add: alias_keys_def dict_contains_def dict_get_def)

section \<open>Properties of the Config Fetcher\<close>

lemma try_urls_soft_prefix:
  "\<forall>p \<in> set pre. soft_miss (net p) \<Longrightarrow>
   try_urls net (pre @ rest) requested = try_urls net rest (requested @ pre)"
proof (induction pre arbitrary: requested)
  case Nil
  then show ?case by simp
next
  case (Cons p pre)
  from Cons.prems have "soft_miss (net p)" by simp
  then have "try_urls net (p # pre @ rest) requested = try_urls net (pre @ rest) (requested @ [p])"
    by (cases "net p") auto
  with Cons show ?case by simp
qed



text \<open>
  Claim C3. The fetcher requests the three URLs in the order of \<open>config_urls\<close>. Let the URLs
  before \<open>u\<close> all be soft misses (status 401 or 404, or an exception that is not an HTTP
  error), so that the loop reaches \<open>u\<close>. If \<open>u\<close> gives a parsed body, that body is returned
  and only the URLs up to \<open>u\<close> have been requested. If \<open>u\<close> gives an HTTP error with another
  status, the error record naming that status is returned at once, again with only the URLs up
  to \<open>u\<close> requested. If \<open>u\<close> is the last URL and a soft miss too, the record
  \<^verbatim>\<open>Failed to fetch config from all URLs\<close> is returned after all three requests.
  The function has a value in every case: \<^verbatim>\<open>except HTTPError\<close> and \<^verbatim>\<open>except Exception\<close>
  leave no exception of the loop body uncaught, which is why the model's result type has no
  error summand.
\<close>

theorem fetch_fallback:
  assumes "config_urls model_id = pre @ u # post"
    and "\<forall>p \<in> set pre. soft_miss (net p)"
  shows "(net u = Parsed v \<longrightarrow> fetch_huggingface_config net model_id = (v, pre @ [u])) \<and>
         (net u = HTTPError code msg \<and> code \<noteq> 401 \<and> code \<noteq> 404 \<longrightarrow>
            fetch_huggingface_config net model_id =
              (JObj [(''error'',
                 JStr (''HTTP error '' @ str_int code @ '': '' @ str_http_error code msg))],
               pre @ [u])) \<and>
         (soft_miss (net u) \<and> post = [] \<longrightarrow>
            fetch_huggingface_config net model_id =
              (JObj [(''error'', JStr ''Failed to fetch config from all URLs'')],
               config_urls model_id))"
proof -
  have start: "fetch_huggingface_config net model_id = try_urls net (u # post) pre"
    using try_urls_soft_prefix [OF assms(2), of "u # post" "[]"]
    by (simp add: fetch_huggingface_config_def assms(1))
  have "soft_miss (net u) \<Longrightarrow> try_urls net (u # post) pre = try_urls net post (pre @ [u])"
    by (cases "net u") auto
  then show ?thesis
    unfolding start using assms(1) by auto
qed

text \<open>
  Three networks: 404 then a parsed body; 401 then 500; 404 on every URL.
\<close>

theorem fetch_fallback_witness:
  "fetch_huggingface_config net_second_url ''acme/m'' =
     (JObj [(''max_position_embeddings'', JInt 32768)],
      [''https://huggingface.co/acme/m/raw/main/config.json'',
       ''https://huggingface.co/acme/m/resolve/main/config.json'']) \<and>
   fetch_huggingface_config net_server_error ''acme/m'' =
     (JObj [(''error'', JStr ''HTTP error 500: HTTP Error 500: Internal Server Error'')],
      [''https://huggingface.co/acme/m/raw/main/config.json'',
       ''https://huggingface.co/acme/m/resolve/main/config.json'']) \<and>
   fetch_huggingface_config net_all_404 ''acme/m'' =
     (JObj [(''error'', JStr ''Failed to fetch config from all URLs'')],
      [''https://huggingface.co/acme/m/raw/main/config.json'',
       ''https://huggingface.co/acme/m/resolve/main/config.json'',
       ''https://huggingface.co/acme/m/blob/main/config.json''])"
proof -
  have s500: "str_int 500 = ''500''" by code_simp
  show ?thesis
    using fetch_fallback [of "''acme/m''" "[''https://huggingface.co/acme/m/raw/main/config.json'']"
        "''https://huggingface.co/acme/m/resolve/main/config.json''"
        "[''https://huggingface.co/acme/m/blob/main/config.json'']"
        net_second_url "JObj [(''max_position_embeddings'', JInt 32768)]"]
      fetch_fallback [of "''acme/m''" "[''https://huggingface.co/acme/m/raw/main/config.json'']"
        "''https://huggingface.co/acme/m/resolve/main/config.json''"
        "[''https://huggingface.co/acme/m/blob/main/config.json'']"
        net_server_error _ 500 "''Internal Server Error''"]
      fetch_fallback [of "''acme/m''" "[''https://huggingface.co/acme/m/raw/main/config.json'',
          ''https://huggingface.co/acme/m/resolve/main/config.json'']"
        "''https://huggingface.co/acme/m/blob/main/config.json''" "[]" net_all_404]
    by (simp add: config_urls_def net_second_url_def net_server_error_def net_all_404_def
        str_http_error_def s500)
qed

section \<open>Properties of the Command Dispatcher\<close>











section \<open>Properties of the Local Model Scanner\<close>







text \<open>The whole scan of that home directory.\<close>

lemma scan_example:
  "find_lm_studio_models ''/home/u'' home_example =
     Inr [[(''id'', JStr ''acme/modelA''),
           (''path'', JStr ''/home/u/.lmstudio/models/acme/modelA''),
           (''config'', JObj [(''max_position_embeddings'', JInt 2048), (''sliding_window'', JNull),
                              (''model_type'', JNull), (''architectures'', JArr []),
                              (''source_field'', JStr ''n_ctx'')])],
          [(''id'', JStr ''acme/modelB''),
           (''path'', JStr ''/home/u/.lmstudio/models/acme/modelB''),
           (''error'', JStr ''Expecting value: line 1 column 1 (char 0)'')]]"
  by (simp add: find_lm_studio_models_def lm_studio_paths_def home_example_def scan_model_dir_def
      path_join_def extract_fields_def dict_get_def alias_keys_def)

end
